theory Spec2Isabelle
  imports Main "HOL-Library.Word"
begin

section \<open>The HTTP cache store of metro-cache (stores/HttpStore.js)\<close>

text \<open>
  The class \<open>HttpStore\<close> keeps a parsed endpoint and two keep-alive agents, and offers
  \<open>get(key)\<close> and \<open>set(key, value)\<close>, each returning a promise that the callbacks of one
  HTTP exchange settle. The model follows the file top to bottom: the values it handles,
  the constructor, then the two operations as a request record plus a fold of the
  callbacks over the events the runtime delivers.
\<close>

subsection \<open>Values of the runtime\<close>

text \<open>
  A \<open>Buffer\<close> is a list of bytes. A JavaScript string is a list of 16-bit code units;
  \<open>str\<close> lifts a literal of the source.
\<close>

type_synonym byte = "8 word"
type_synonym buffer = "byte list"
type_synonym jsstring = "16 word list"

definition str :: "string \<Rightarrow> jsstring" where
  "str s = map of_char s"

text \<open>
  \<open>!x\<close> on a value that is a string or \<open>null\<close>/\<open>undefined\<close> (\<open>None\<close>): only the absent
  value and the empty string are falsy.
\<close>

fun falsy :: "jsstring option \<Rightarrow> bool" where
  "falsy None = True"
| "falsy (Some s) = (s = [])"

text \<open>
  String concatenation with a number, \<open>'...' + code\<close>: a non-negative integer is
  rendered in decimal, without leading zeros.
\<close>

definition digit_char :: "nat \<Rightarrow> 16 word" where
  "digit_char d = of_nat (48 + d)"

fun number_toString :: "nat \<Rightarrow> jsstring" where
  "number_toString n =
     (if n < 10 then [digit_char n]
      else number_toString (n div 10) @ [digit_char (n mod 10)])"

declare number_toString.simps [simp del]

text \<open>
  \<open>buf.toString('hex')\<close>: two lowercase hexadecimal digits for each byte, the high
  nibble first.
\<close>

definition hex_digits :: jsstring where
  "hex_digits = str ''0123456789abcdef''"

definition hex_digit :: "nat \<Rightarrow> 16 word" where
  "hex_digit n = hex_digits ! (n mod 16)"

definition hex_byte :: "byte \<Rightarrow> jsstring" where
  "hex_byte b = [hex_digit (unat b div 16), hex_digit (unat b mod 16)]"

definition toString_hex :: "buffer \<Rightarrow> jsstring" where
  "toString_hex key = concat (map hex_byte key)"

subsection \<open>Errors and promises\<close>

text \<open>
  An error object raised by the runtime (JSON.parse, zlib, a socket): its message and its
  optional code.
\<close>

record node_error =
  err_message :: jsstring
  err_code :: "jsstring option"

text \<open>
  Modelled from the spec: the classes \<open>HttpError\<close> (\<open>./HttpError\<close>) and \<open>NetworkError\<close>
  (\<open>./NetworkError\<close>) are required by the source file and are not part of it. The spec
  gives them as \<open>ProtocolError{message, statusCode}\<close> and
  \<open>TransportError{message, code: optional(string)}\<close>; the constructors below take the
  arguments in the order the source passes them. \<open>TypeError\<close> is the built-in the
  constructor throws, and \<open>NodeError\<close> is an error object of the runtime handed on as it
  is (\<open>reject(err)\<close>).
\<close>

datatype error =
    TypeError jsstring
  | HttpError jsstring nat
  | NetworkError jsstring "jsstring option"
  | NodeError node_error

fun is_HttpError :: "error \<Rightarrow> bool" where
  "is_HttpError (HttpError m c) = True"
| "is_HttpError e = False"

fun statusCode :: "error \<Rightarrow> nat option" where
  "statusCode (HttpError m c) = Some c"
| "statusCode e = None"

fun message :: "error \<Rightarrow> jsstring" where
  "message (TypeError m) = m"
| "message (HttpError m c) = m"
| "message (NetworkError m c) = m"
| "message (NodeError e) = err_message e"

text \<open>
  A promise is settled once: \<open>resolve\<close> and \<open>reject\<close> on a settled promise do nothing.
\<close>

datatype ('a, 'e) promise = Pending | Resolved 'a | Rejected 'e

fun resolve :: "'a \<Rightarrow> ('a, 'e) promise \<Rightarrow> ('a, 'e) promise" where
  "resolve v Pending = Resolved v"
| "resolve v p = p"

fun reject :: "'e \<Rightarrow> ('a, 'e) promise \<Rightarrow> ('a, 'e) promise" where
  "reject e Pending = Rejected e"
| "reject e p = p"

subsection \<open>The constructor\<close>

text \<open>
  \<open>Options\<close>, the fields of \<open>url.parse\<close>'s result that the constructor reads, the agent
  configuration and the fields of the instance (\<open>this._module\<close> is \<open>s_module\<close>, and so on).
\<close>

datatype family = IPv4 | IPv6

record options =
  opt_endpoint :: jsstring
  opt_family :: "family option"
  opt_timeout :: "int option"

record uri =
  uri_protocol :: "jsstring option"
  uri_hostname :: "jsstring option"
  uri_pathname :: "jsstring option"
  uri_port :: "jsstring option"

datatype transport = Http | Https

record agentConfig =
  cfg_family :: "family option"
  keepAlive :: bool
  keepAliveMsecs :: int
  maxSockets :: nat
  maxFreeSockets :: nat

datatype agent = Agent transport agentConfig

record http_store =
  s_module :: transport
  s_timeout :: int
  s_host :: jsstring
  s_path :: jsstring
  s_port :: int
  s_getAgent :: agent
  s_setAgent :: agent

text \<open>\<open>options.timeout || 5000\<close>: an absent timeout and the number 0 are falsy.\<close>

fun timeout_or_default :: "int option \<Rightarrow> int" where
  "timeout_or_default None = 5000"
| "timeout_or_default (Some t) = (if t = 0 then 5000 else t)"

text \<open>
  Unary plus, \<open>+uri.port\<close>: \<open>null\<close> becomes the number 0; a string is converted by the
  language's string-to-number conversion, which the model takes as the parameter
  \<open>string_to_number\<close>.
\<close>

fun unary_plus :: "(jsstring \<Rightarrow> int) \<Rightarrow> jsstring option \<Rightarrow> int" where
  "unary_plus string_to_number None = 0"
| "unary_plus string_to_number (Some s) = string_to_number s"

text \<open>
  \<open>new HttpStore(options)\<close>. \<open>url.parse\<close> is the runtime's and is a parameter. The
  \<open>throw\<close> is the \<open>Inl\<close> result; it comes before any field is assigned and before the
  agents are created. Past the check both \<open>uri.hostname\<close> and \<open>uri.pathname\<close> are
  strings, so \<open>the\<close> is only applied to \<open>Some\<close>.
\<close>

definition HttpStore_new ::
  "(jsstring \<Rightarrow> uri) \<Rightarrow> (jsstring \<Rightarrow> int) \<Rightarrow> options \<Rightarrow> error + http_store" where
  "HttpStore_new url_parse string_to_number options =
     (let uri = url_parse (opt_endpoint options);
          module = (if uri_protocol uri = Some (str ''http:'') then Http else Https);
          agentConfig = \<lparr>cfg_family = opt_family options,
                         keepAlive = True,
                         keepAliveMsecs = timeout_or_default (opt_timeout options),
                         maxSockets = 64,
                         maxFreeSockets = 64\<rparr>
      in if falsy (uri_hostname uri) \<or> falsy (uri_pathname uri)
         then Inl (TypeError (str ''Invalid endpoint: '' @ opt_endpoint options))
         else Inr \<lparr>s_module = module,
                   s_timeout = timeout_or_default (opt_timeout options),
                   s_host = the (uri_hostname uri),
                   s_path = the (uri_pathname uri),
                   s_port = unary_plus string_to_number (uri_port uri),
                   s_getAgent = Agent module agentConfig,
                   s_setAgent = Agent module agentConfig\<rparr>)"

subsection \<open>The requests\<close>

datatype http_method = GET | PUT

record request_options =
  req_agent :: agent
  req_host :: jsstring
  req_method :: http_method
  req_path :: jsstring
  req_port :: int
  req_timeout :: int

text \<open>The \<open>options\<close> object of \<open>get\<close>, passed to \<open>this._module.request\<close>.\<close>

definition get_options :: "http_store \<Rightarrow> buffer \<Rightarrow> request_options" where
  "get_options this key =
     \<lparr>req_agent = s_getAgent this,
      req_host = s_host this,
      req_method = GET,
      req_path = s_path this @ str ''/'' @ toString_hex key,
      req_port = s_port this,
      req_timeout = s_timeout this\<rparr>"

text \<open>The \<open>options\<close> object of \<open>set\<close>.\<close>

definition set_options :: "http_store \<Rightarrow> buffer \<Rightarrow> request_options" where
  "set_options this key =
     \<lparr>req_agent = s_setAgent this,
      req_host = s_host this,
      req_method = PUT,
      req_path = s_path this @ str ''/'' @ toString_hex key,
      req_port = s_port this,
      req_timeout = s_timeout this\<rparr>"

subsection \<open>Decoding a chunk: \<open>chunk.toString()\<close>\<close>

text \<open>
  \<open>buf.toString()\<close> decodes the bytes of one buffer as UTF-8 into a string. It is the
  runtime's; the model is the standard decoder, which puts the replacement character
  U+FFFD where the bytes are not well-formed UTF-8, also for a sequence that the end of
  the buffer cuts short. \<open>utf8_decode needed cp lo hi bs\<close> yields the code points:
  \<open>needed\<close> continuation bytes are still expected for the code point whose leading
  bits are \<open>cp\<close>, and the next one has to lie in \<open>lo..hi\<close>.
\<close>

function utf8_decode :: "nat \<Rightarrow> nat \<Rightarrow> nat \<Rightarrow> nat \<Rightarrow> buffer \<Rightarrow> nat list" where
  "utf8_decode needed cp lo hi [] = (if needed = 0 then [] else [0xFFFD])"
| "utf8_decode needed cp lo hi (b # bs) =
     (let u = unat b in
      if needed = 0 then
        (if u \<le> 0x7F then u # utf8_decode 0 0 0x80 0xBF bs
         else if 0xC2 \<le> u \<and> u \<le> 0xDF then utf8_decode 1 (u mod 32) 0x80 0xBF bs
         else if 0xE0 \<le> u \<and> u \<le> 0xEF then
           utf8_decode 2 (u mod 16) (if u = 0xE0 then 0xA0 else 0x80)
             (if u = 0xED then 0x9F else 0xBF) bs
         else if 0xF0 \<le> u \<and> u \<le> 0xF4 then
           utf8_decode 3 (u mod 8) (if u = 0xF0 then 0x90 else 0x80)
             (if u = 0xF4 then 0x8F else 0xBF) bs
         else 0xFFFD # utf8_decode 0 0 0x80 0xBF bs)
      else if u < lo \<or> hi < u then 0xFFFD # utf8_decode 0 0 0x80 0xBF (b # bs)
      else if needed = 1 then (cp * 64 + u mod 64) # utf8_decode 0 0 0x80 0xBF bs
      else utf8_decode (needed - 1) (cp * 64 + u mod 64) 0x80 0xBF bs)"
  by pat_completeness auto
termination
  by (relation "measure (\<lambda>(needed, cp, lo, hi, bs).
        2 * length bs + (if needed = 0 then 0 else 1))") auto

text \<open>A code point as UTF-16 code units: a surrogate pair above the basic plane.\<close>

definition utf16 :: "nat \<Rightarrow> jsstring" where
  "utf16 c =
     (if c < 0x10000 then [of_nat c]
      else [of_nat (0xD800 + (c - 0x10000) div 1024),
            of_nat (0xDC00 + (c - 0x10000) mod 1024)])"

definition toString :: "buffer \<Rightarrow> jsstring" where
  "toString chunk = concat (map utf16 (utf8_decode 0 0 0x80 0xBF chunk))"

subsection \<open>\<open>get(key)\<close>\<close>

text \<open>
  What the runtime delivers to the callbacks of \<open>get\<close>, in the order of delivery: an
  \<open>'error'\<close> on the request, the response with its status code, an \<open>'error'\<close> on the
  response, and the \<open>'data'\<close>, \<open>'error'\<close> and \<open>'end'\<close> events of the gunzip stream
  that the response is piped into. Events of the response and of the gunzip stream only
  occur after the response; the model accepts any list.
\<close>

datatype get_event =
    ReqError node_error
  | Response nat
  | ResError node_error
  | GunzipData buffer
  | GunzipError node_error
  | GunzipEnd

text \<open>
  The state the callbacks share: the promise, the variable \<open>data\<close>, whether the
  response was piped into a gunzip stream with its three listeners (the 200 branch),
  whether \<open>res.resume()\<close> was called (the body is drained unread), and the errors
  emitted where no listener was registered, which the runtime throws. A value of Flow's
  type \<open>?T\<close> is a \<open>'v option\<close>, \<open>None\<close> for \<open>null\<close>.
\<close>

record 'v get_state =
  g_promise :: "('v option, error) promise"
  g_data :: jsstring
  g_piped :: bool
  g_resumed :: bool
  g_uncaught :: "node_error list"

definition get_init :: "'v get_state" where
  "get_init = \<lparr>g_promise = Pending, g_data = [], g_piped = False, g_resumed = False,
               g_uncaught = []\<rparr>"

text \<open>
  One callback. \<open>JSON_parse\<close> is the runtime's \<open>JSON.parse\<close>: \<open>Inl\<close> is the error it
  throws, caught by the \<open>try\<close> and passed to \<open>reject\<close>.
\<close>

fun get_step ::
  "(jsstring \<Rightarrow> node_error + 'v option) \<Rightarrow> 'v get_state \<Rightarrow> get_event \<Rightarrow> 'v get_state" where
  "get_step JSON_parse st (ReqError err) =
     st\<lparr>g_promise := reject (NetworkError (err_message err) (err_code err)) (g_promise st)\<rparr>"
| "get_step JSON_parse st (Response code) =
     (if code = 404 then
        st\<lparr>g_resumed := True, g_promise := resolve None (g_promise st)\<rparr>
      else if code \<noteq> 200 then
        st\<lparr>g_resumed := True,
           g_promise := reject (HttpError (str ''HTTP error: '' @ number_toString code) code)
                          (g_promise st)\<rparr>
      else st\<lparr>g_data := [], g_piped := True\<rparr>)"
| "get_step JSON_parse st (GunzipData chunk) =
     (if g_piped st then st\<lparr>g_data := g_data st @ toString chunk\<rparr> else st)"
| "get_step JSON_parse st (GunzipError err) =
     (if g_piped st then st\<lparr>g_promise := reject (NodeError err) (g_promise st)\<rparr> else st)"
| "get_step JSON_parse st GunzipEnd =
     (if g_piped st then
        (case JSON_parse (g_data st) of
           Inr v \<Rightarrow> st\<lparr>g_promise := resolve v (g_promise st)\<rparr>
         | Inl err \<Rightarrow> st\<lparr>g_promise := reject (NodeError err) (g_promise st)\<rparr>)
      else st)"
| "get_step JSON_parse st (ResError err) =
     (if g_piped st then st\<lparr>g_promise := reject (NodeError err) (g_promise st)\<rparr>
      else st\<lparr>g_uncaught := g_uncaught st @ [err]\<rparr>)"

text \<open>
  \<open>get(key)\<close>: the request it issues, and the state after the events of the exchange.
\<close>

definition get_run ::
  "(jsstring \<Rightarrow> node_error + 'v option) \<Rightarrow> get_event list \<Rightarrow> 'v get_state" where
  "get_run JSON_parse events = foldl (get_step JSON_parse) get_init events"

definition get ::
  "(jsstring \<Rightarrow> node_error + 'v option) \<Rightarrow> http_store \<Rightarrow> buffer \<Rightarrow> get_event list
     \<Rightarrow> request_options \<times> 'v get_state" where
  "get JSON_parse this key events = (get_options this key, get_run JSON_parse events)"

subsection \<open>\<open>set(key, value)\<close>\<close>

record zlib_options =
  level :: nat

definition ZLIB_OPTIONS :: zlib_options where
  "ZLIB_OPTIONS = \<lparr>level = 9\<rparr>"

text \<open>zlib's compression levels end at \<open>Z_BEST_COMPRESSION\<close>.\<close>

definition Z_BEST_COMPRESSION :: nat where
  "Z_BEST_COMPRESSION = 9"

text \<open>
  \<open>s || 'null'\<close>, for \<open>s\<close> what \<open>JSON.stringify(value)\<close> returned: \<open>None\<close> is its result
  \<open>undefined\<close>; that and the empty string are falsy.
\<close>

definition serialize :: "jsstring option \<Rightarrow> jsstring" where
  "serialize s = (if falsy s then str ''null'' else the s)"

text \<open>
  The body of the request: what the gzip stream created with \<open>ZLIB_OPTIONS\<close> writes to
  the request it is piped into, after \<open>gzip.end(text)\<close>. \<open>gzip\<close> is zlib's, a parameter:
  the compressed bytes of a string under given options.
\<close>

definition set_body :: "(zlib_options \<Rightarrow> jsstring \<Rightarrow> buffer) \<Rightarrow> jsstring option \<Rightarrow> buffer" where
  "set_body gzip s = gzip ZLIB_OPTIONS (serialize s)"

text \<open>
  The events of \<open>set\<close>: an \<open>'error'\<close> on the request, the response with its status code,
  and the \<open>'data'\<close>, \<open>'error'\<close> and \<open>'end'\<close> events of the response. \<open>set\<close> registers no
  listener for an error of the request, so the runtime throws it: it goes to
  \<open>p_uncaught\<close> and leaves the promise as it is.
\<close>

datatype set_event =
    SReqError node_error
  | SResponse nat
  | SResData buffer
  | SResError node_error
  | SResEnd

record set_state =
  p_promise :: "(unit, error) promise"
  p_listening :: bool
  p_resumed :: bool
  p_uncaught :: "node_error list"

definition set_init :: set_state where
  "set_init = \<lparr>p_promise = Pending, p_listening = False, p_resumed = False, p_uncaught = []\<rparr>"

fun set_step :: "set_state \<Rightarrow> set_event \<Rightarrow> set_state" where
  "set_step st (SReqError err) = st\<lparr>p_uncaught := p_uncaught st @ [err]\<rparr>"
| "set_step st (SResponse code) = st\<lparr>p_listening := True, p_resumed := True\<rparr>"
| "set_step st (SResData chunk) = st"
| "set_step st (SResError err) =
     (if p_listening st then st\<lparr>p_promise := reject (NodeError err) (p_promise st)\<rparr> else st)"
| "set_step st SResEnd =
     (if p_listening st then st\<lparr>p_promise := resolve () (p_promise st)\<rparr> else st)"

definition set_run :: "set_event list \<Rightarrow> set_state" where
  "set_run events = foldl set_step set_init events"

text \<open>
  \<open>set(key, value)\<close>: the options it passes to \<open>this._module.request\<close>, the body it
  sends, if any, and the state after the events of the exchange.

  The body of \<open>set\<close> runs in the executor of the promise, before any event is delivered,
  and an exception thrown there rejects the promise with what was thrown. Two calls of
  the executor can throw, and both are parameters of the model:
  \<^item> \<open>this._module.request(options, ...)\<close>: \<open>request options\<close> is \<open>Some err\<close> when the
    runtime refuses the options and throws \<open>err\<close>, \<open>None\<close> when it returns the request.
    When it throws there is no request: nothing is piped or sent, no callback is
    registered and no event can be delivered.
  \<^item> \<open>JSON.stringify(value)\<close>: \<open>Inl err\<close> when it throws \<open>err\<close> (a cyclic object, a
    BigInt), \<open>Inr s\<close> when it returns \<open>s\<close>. When it throws, the request exists and its
    callback is registered, but \<open>gzip.end\<close> is never called: no body is sent, and the
    events find the promise already rejected.
\<close>

definition set_op ::
  "(request_options \<Rightarrow> node_error option) \<Rightarrow> (zlib_options \<Rightarrow> jsstring \<Rightarrow> buffer)
     \<Rightarrow> ('v \<Rightarrow> node_error + jsstring option) \<Rightarrow> http_store \<Rightarrow> buffer
     \<Rightarrow> 'v \<Rightarrow> set_event list \<Rightarrow> request_options \<times> buffer option \<times> set_state" where
  "set_op request gzip JSON_stringify this key v events =
     (let options = set_options this key in
      case request options of
        Some err \<Rightarrow>
          (options, None, set_init\<lparr>p_promise := reject (NodeError err) (p_promise set_init)\<rparr>)
      | None \<Rightarrow>
          (case JSON_stringify v of
             Inl err \<Rightarrow>
               (options, None,
                foldl set_step
                  (set_init\<lparr>p_promise := reject (NodeError err) (p_promise set_init)\<rparr>) events)
           | Inr s \<Rightarrow> (options, Some (set_body gzip s), set_run events)))"

subsection \<open>Concrete inputs\<close>

text \<open>
  A store for the endpoint \<open>http://localhost:8080/cache\<close>, what \<open>url.parse\<close> returns for
  that endpoint, for \<open>https://cache.example/v1\<close> (no port) and for \<open>localhost/cache\<close>
  (no scheme, so no host name), and two error objects of the runtime.
\<close>

abbreviation sample_config :: agentConfig where
  "sample_config \<equiv> \<lparr>cfg_family = None, keepAlive = True, keepAliveMsecs = 5000,
                      maxSockets = 64, maxFreeSockets = 64\<rparr>"

abbreviation sample_store :: http_store where
  "sample_store \<equiv> \<lparr>s_module = Http, s_timeout = 5000, s_host = str ''localhost'',
                     s_path = str ''/cache'', s_port = 8080,
                     s_getAgent = Agent Http sample_config,
                     s_setAgent = Agent Http sample_config\<rparr>"

abbreviation sample_options :: "jsstring \<Rightarrow> options" where
  "sample_options endpoint \<equiv> \<lparr>opt_endpoint = endpoint, opt_family = None, opt_timeout = None\<rparr>"

abbreviation uri_http :: uri where
  "uri_http \<equiv> \<lparr>uri_protocol = Some (str ''http:''), uri_hostname = Some (str ''localhost''),
                 uri_pathname = Some (str ''/cache''), uri_port = Some (str ''8080'')\<rparr>"

abbreviation uri_no_port :: uri where
  "uri_no_port \<equiv> \<lparr>uri_protocol = Some (str ''https:''),
                    uri_hostname = Some (str ''cache.example''),
                    uri_pathname = Some (str ''/v1''), uri_port = None\<rparr>"

abbreviation uri_no_host :: uri where
  "uri_no_host \<equiv> \<lparr>uri_protocol = None, uri_hostname = None,
                    uri_pathname = Some (str ''localhost/cache''), uri_port = None\<rparr>"

abbreviation syntax_error :: node_error where
  "syntax_error \<equiv> \<lparr>err_message = str ''Unexpected end of JSON input'', err_code = None\<rparr>"

abbreviation socket_error :: node_error where
  "socket_error \<equiv> \<lparr>err_message = str ''socket hang up'', err_code = Some (str ''ECONNRESET'')\<rparr>"

text \<open>
  The error \<open>JSON.stringify\<close> throws on a cyclic object, the error \<open>request\<close> throws on
  a negative timeout, and a \<open>request\<close> that refuses just that.
\<close>

abbreviation cyclic_error :: node_error where
  "cyclic_error \<equiv> \<lparr>err_message = str ''Converting circular structure to JSON'',
                     err_code = None\<rparr>"

abbreviation range_error :: node_error where
  "range_error \<equiv> \<lparr>err_message = str ''The value of timeout is out of range'',
                    err_code = Some (str ''ERR_OUT_OF_RANGE'')\<rparr>"

abbreviation sample_request :: "request_options \<Rightarrow> node_error option" where
  "sample_request \<equiv> \<lambda>options. if req_timeout options < 0 then Some range_error else None"

section \<open>Properties\<close>

subsection \<open>Promises settle once\<close>

lemma resolve_settled: "p \<noteq> Pending \<Longrightarrow> resolve v p = p"
  by (cases p) simp_all

lemma reject_settled: "p \<noteq> Pending \<Longrightarrow> reject e p = p"
  by (cases p) simp_all

lemma get_step_settled:
  "g_promise st \<noteq> Pending \<Longrightarrow> g_promise (get_step P st ev) = g_promise st"
  by (cases ev) (simp_all add: resolve_settled reject_settled split: sum.splits)

lemma get_steps_settled:
  "g_promise st \<noteq> Pending \<Longrightarrow> g_promise (foldl (get_step P) st evs) = g_promise st"
  by (induction evs arbitrary: st) (simp_all add: get_step_settled)

lemma get_step_resumed: "g_resumed st \<Longrightarrow> g_resumed (get_step P st ev)"
  by (cases ev) (simp_all split: sum.splits)

lemma get_steps_resumed: "g_resumed st \<Longrightarrow> g_resumed (foldl (get_step P) st evs)"
  by (induction evs arbitrary: st) (simp_all add: get_step_resumed)

lemma set_step_settled:
  "p_promise st \<noteq> Pending \<Longrightarrow> p_promise (set_step st ev) = p_promise st"
  by (cases ev) (simp_all add: resolve_settled reject_settled)

lemma set_steps_settled:
  "p_promise st \<noteq> Pending \<Longrightarrow> p_promise (foldl set_step st evs) = p_promise st"
  by (induction evs arbitrary: st) (simp_all add: set_step_settled)

subsection \<open>The accumulated text\<close>

text \<open>
  In the 200 branch the \<open>'data'\<close> listener appends the decoding of each chunk, chunk by
  chunk.
\<close>

lemma get_steps_data:
  "g_piped st \<Longrightarrow>
   foldl (get_step P) st (map GunzipData chunks) =
     st\<lparr>g_data := g_data st @ concat (map toString chunks)\<rparr>"
  by (induction chunks arbitrary: st) simp_all

lemma get_200_then_data:
  "foldl (get_step P) get_init (Response 200 # map GunzipData chunks) =
     get_init\<lparr>g_data := concat (map toString chunks), g_piped := True\<rparr>"
  by (simp add: get_steps_data get_init_def)

lemma get_rejects_after_data:
  assumes "g_promise (get_step P
             (get_init\<lparr>g_data := concat (map toString chunks), g_piped := True\<rparr>) ev) = Rejected e"
  shows "g_promise (get_run P (Response 200 # map GunzipData chunks @ ev # evs)) = Rejected e"
proof -
  define acc :: "'a get_state"
    where "acc = get_init\<lparr>g_data := concat (map toString chunks), g_piped := True\<rparr>"
  have "foldl (get_step P) get_init ((Response 200 # map GunzipData chunks) @ ev # evs) =
          foldl (get_step P) (foldl (get_step P) get_init (Response 200 # map GunzipData chunks))
            (ev # evs)"
    by (rule foldl_append)
  also have "\<dots> = foldl (get_step P) acc (ev # evs)"
    unfolding acc_def by (simp only: get_200_then_data)
  also have "\<dots> = foldl (get_step P) (get_step P acc ev) evs"
    by simp
  finally have "get_run P (Response 200 # map GunzipData chunks @ ev # evs) =
                  foldl (get_step P) (get_step P acc ev) evs"
    by (simp add: get_run_def)
  moreover from assms have r: "g_promise (get_step P acc ev) = Rejected e"
    by (simp only: acc_def)
  moreover have "g_promise (foldl (get_step P) (get_step P acc ev) evs) =
                   g_promise (get_step P acc ev)"
    by (rule get_steps_settled) (simp add: r)
  ultimately show ?thesis
    by simp
qed

text \<open>Bytes below 0x80 decode to themselves, whatever follows them in the buffer.\<close>

lemma utf8_decode_ascii_prefix:
  "\<forall>b\<in>set xs. unat b \<le> 0x7F \<Longrightarrow>
   utf8_decode 0 0 0x80 0xBF (xs @ ys) = map unat xs @ utf8_decode 0 0 0x80 0xBF ys"
  by (induction xs) (simp_all add: Let_def)

lemma utf16_ascii: "unat (b :: byte) \<le> 0x7F \<Longrightarrow> utf16 (unat b) = [ucast b]"
  by (simp add: utf16_def)

lemma toString_ascii_prefix:
  assumes "\<forall>b\<in>set xs. unat b \<le> 0x7F"
  shows "toString (xs @ ys) = map ucast xs @ toString ys"
proof -
  have "concat (map utf16 (map unat xs)) = map ucast xs"
    using assms by (induction xs) (simp_all add: utf16_ascii)
  then show ?thesis
    using assms by (simp add: toString_def utf8_decode_ascii_prefix)
qed

lemma toString_quote_as:
  "toString (0x22 # replicate n 0x61 @ ys) = 0x22 # replicate n 0x61 @ toString ys"
  using toString_ascii_prefix [of "0x22 # replicate n 0x61" ys] by simp

text \<open>
  The 200 branch as a whole: after the chunks and the end of the stream, the promise is
  settled by \<open>JSON.parse\<close> on the concatenation of the chunks' decodings.
\<close>

lemma get_200_settles_with_parse:
  "g_promise (get_run P (Response 200 # map GunzipData chunks @ GunzipEnd # evs)) =
     (case P (concat (map toString chunks)) of
        Inl err \<Rightarrow> Rejected (NodeError err)
      | Inr v \<Rightarrow> Resolved v)"
proof (cases "P (concat (map toString chunks))")
  case (Inl err)
  then have "g_promise (get_step P
      (get_init\<lparr>g_data := concat (map toString chunks), g_piped := True\<rparr>) GunzipEnd) =
      Rejected (NodeError err)"
    by (simp add: get_init_def)
  then have "g_promise (get_run P (Response 200 # map GunzipData chunks @ GunzipEnd # evs)) =
      Rejected (NodeError err)"
    by (rule get_rejects_after_data)
  with Inl show ?thesis by simp
next
  case (Inr v)
  define acc :: "'a get_state"
    where "acc = get_init\<lparr>g_data := concat (map toString chunks), g_piped := True\<rparr>"
  have "foldl (get_step P) get_init ((Response 200 # map GunzipData chunks) @ GunzipEnd # evs) =
          foldl (get_step P) (foldl (get_step P) get_init (Response 200 # map GunzipData chunks))
            (GunzipEnd # evs)"
    by (rule foldl_append)
  also have "\<dots> = foldl (get_step P) acc (GunzipEnd # evs)"
    unfolding acc_def by (simp only: get_200_then_data)
  also have "\<dots> = foldl (get_step P) (get_step P acc GunzipEnd) evs"
    by simp
  finally have run: "get_run P (Response 200 # map GunzipData chunks @ GunzipEnd # evs) =
                  foldl (get_step P) (get_step P acc GunzipEnd) evs"
    by (simp add: get_run_def)
  have r: "g_promise (get_step P acc GunzipEnd) = Resolved v"
    using Inr by (simp add: acc_def get_init_def)
  have "g_promise (foldl (get_step P) (get_step P acc GunzipEnd) evs) =
          g_promise (get_step P acc GunzipEnd)"
    by (rule get_steps_settled) (unfold r, simp)
  with run r Inr show ?thesis by simp
qed

text \<open>
  Chunks of bytes below 0x80 decode, one by one, to what the whole body decodes to; so
  does a body delivered as a single chunk.
\<close>

lemma toString_ascii: "\<forall>b\<in>set xs. unat b \<le> 0x7F \<Longrightarrow> toString xs = map ucast xs"
  using toString_ascii_prefix [of xs "[]"] by (simp add: toString_def)

lemma toString_ascii_chunks:
  assumes "\<forall>c\<in>set chunks. \<forall>b\<in>set c. unat b \<le> 0x7F"
  shows "concat (map toString chunks) = toString (concat chunks)"
proof -
  have "concat (map toString chunks) = map ucast (concat chunks)"
    using assms by (induction chunks) (simp_all add: toString_ascii)
  moreover have "toString (concat chunks) = map ucast (concat chunks)"
    using assms by (intro toString_ascii) auto
  ultimately show ?thesis by simp
qed

subsection \<open>The response of \<open>set\<close>\<close>

lemma set_steps_quiet:
  "\<forall>err. SResError err \<notin> set evs \<Longrightarrow> SResEnd \<notin> set evs \<Longrightarrow>
   p_promise (foldl set_step st evs) = p_promise st
   \<and> p_listening (foldl set_step st evs) = (p_listening st \<or> (\<exists>c. SResponse c \<in> set evs))"
proof (induction evs arbitrary: st)
  case Nil
  then show ?case by simp
next
  case (Cons ev evs)
  then show ?case by (cases ev) auto
qed

lemma set_steps_rejected:
  "p_promise (foldl set_step st evs) = Rejected e \<Longrightarrow>
   p_promise st = Rejected e \<or> (\<exists>err. e = NodeError err \<and> SResError err \<in> set evs)"
proof (induction evs arbitrary: st)
  case Nil
  then show ?case by simp
next
  case (Cons ev evs)
  from Cons.IH [OF Cons.prems [simplified]]
  show ?case
    by (cases ev; cases "p_promise st") (auto split: if_splits)
qed

lemma set_steps_uncaught:
  "\<forall>err. SReqError err \<notin> set evs \<Longrightarrow> p_uncaught (foldl set_step st evs) = p_uncaught st"
proof (induction evs arbitrary: st)
  case Nil
  then show ?case by simp
next
  case (Cons ev evs)
  then show ?case by (cases ev) auto
qed

lemma set_steps_status_blind:
  "foldl set_step st (evs0 @ SResponse code # evs) =
   foldl set_step st (evs0 @ SResponse code' # evs)"
  by simp

text \<open>
  The options \<open>set\<close> passes to \<open>request\<close> are built before the call, whatever the call
  does; and what \<open>set\<close> does when both calls of the executor return.
\<close>

lemma set_op_options:
  "fst (set_op request gzip JSON_stringify this key v evs) = set_options this key"
  by (simp add: set_op_def Let_def split: option.splits sum.splits)

lemma set_op_returns:
  "request (set_options this key) = None \<Longrightarrow> JSON_stringify v = Inr s \<Longrightarrow>
   set_op request gzip JSON_stringify this key v evs =
     (set_options this key, Some (set_body gzip s), set_run evs)"
  by (simp add: set_op_def)

subsection \<open>Hexadecimal keys\<close>

lemma hex_digit_in: "hex_digit n \<in> set hex_digits"
proof -
  have "n mod 16 < length hex_digits" by (simp add: hex_digits_def str_def)
  then show ?thesis unfolding hex_digit_def by (rule nth_mem)
qed

lemma set_toString_hex: "set (toString_hex key) \<subseteq> set hex_digits"
  by (induction key) (simp_all add: toString_hex_def hex_byte_def hex_digit_in)

lemma length_toString_hex: "length (toString_hex key) = 2 * length key"
  by (induction key) (simp_all add: toString_hex_def hex_byte_def)

section \<open>The claims\<close>

subsection \<open>The round trip of a value\<close>

text \<open>
  Claim C1: \<open>set(k, v)\<close> followed by \<open>get(k)\<close> yields a value equal to \<open>v\<close> when the
  service returns the bytes it was sent. The code does not keep this when the gunzip
  stream delivers the text in more than one chunk and a character's UTF-8 bytes fall on
  both sides of a chunk boundary: \<open>data += chunk.toString()\<close> decodes each chunk on its
  own. Here the JSON text is a quote, \<open>n\<close> letters \<open>a\<close>, the letter e with acute accent
  (U+00E9, bytes C3 A9) and a quote; the first chunk ends after C3. Decoded as one buffer
  the bytes give the text back; decoded as the two chunks, \<open>JSON.parse\<close> is handed the
  text with two replacement characters U+FFFD where U+00E9 was, and the promise is
  settled with whatever the parser makes of that text.
\<close>

theorem get_decodes_split_character_per_chunk:
  "g_promise (snd (get JSON_parse this key
      [Response 200,
       GunzipData (0x22 # replicate n 0x61 @ [0xC3]),
       GunzipData [0xA9, 0x22],
       GunzipEnd])) =
     (case JSON_parse (0x22 # replicate n 0x61 @ [0xFFFD, 0xFFFD, 0x22]) of
        Inl err \<Rightarrow> Rejected (NodeError err)
      | Inr v \<Rightarrow> Resolved v)
   \<and> toString ((0x22 # replicate n 0x61 @ [0xC3]) @ [0xA9, 0x22]) =
       0x22 # replicate n 0x61 @ [0xE9, 0x22]"
proof
  have c1: "toString (0x22 # replicate n 0x61 @ [0xC3]) = 0x22 # replicate n 0x61 @ [0xFFFD]"
    by (simp add: toString_quote_as) (simp add: toString_def utf16_def)
  have c2: "toString [0xA9, 0x22] = [0xFFFD, 0x22]"
    by (simp add: toString_def utf16_def)
  show "g_promise (snd (get JSON_parse this key
      [Response 200,
       GunzipData (0x22 # replicate n 0x61 @ [0xC3]),
       GunzipData [0xA9, 0x22],
       GunzipEnd])) =
     (case JSON_parse (0x22 # replicate n 0x61 @ [0xFFFD, 0xFFFD, 0x22]) of
        Inl err \<Rightarrow> Rejected (NodeError err)
      | Inr v \<Rightarrow> Resolved v)"
    by (simp add: get_def get_run_def get_init_def c1 c2 split: sum.splits)
  have "toString (0x22 # replicate n 0x61 @ [0xC3, 0xA9, 0x22]) =
       0x22 # replicate n 0x61 @ [0xE9, 0x22]"
    by (simp add: toString_quote_as) (simp add: toString_def utf16_def)
  then show "toString ((0x22 # replicate n 0x61 @ [0xC3]) @ [0xA9, 0x22]) =
       0x22 # replicate n 0x61 @ [0xE9, 0x22]"
    by simp
qed

subsection \<open>The status code of a read\<close>

text \<open>
  Claim C2: when the response to \<open>get(k)\<close> has status 404, the callback calls
  \<open>res.resume()\<close> to drain the body and resolves the promise with \<open>null\<close>; whatever
  the exchange delivers afterwards, the promise stays resolved with \<open>null\<close> and is
  never rejected.
\<close>

theorem get_404_resolves_null:
  "g_promise (snd (get JSON_parse this key (Response 404 # evs))) = Resolved None
   \<and> g_resumed (snd (get JSON_parse this key (Response 404 # evs)))
   \<and> (\<forall>e. g_promise (snd (get JSON_parse this key (Response 404 # evs))) \<noteq> Rejected e)"
proof -
  let ?st = "get_step JSON_parse get_init (Response 404)"
  have "g_promise ?st = Resolved None" and r: "g_resumed ?st"
    by (simp_all add: get_init_def)
  then have "g_promise (foldl (get_step JSON_parse) ?st evs) = Resolved None"
    by (simp add: get_steps_settled)
  moreover have "g_resumed (foldl (get_step JSON_parse) ?st evs)"
    using r by (rule get_steps_resumed)
  ultimately show ?thesis
    by (simp add: get_def get_run_def)
qed

theorem get_404_resolves_null_witness:
  "g_promise (snd (get (\<lambda>t. Inl syntax_error) sample_store [0xCA, 0xFE]
       [Response 404, GunzipData [0x7B], ReqError socket_error, GunzipEnd]))
     = (Resolved None :: (jsstring option, error) promise)
   \<and> g_resumed (snd (get (\<lambda>t. Inl syntax_error :: node_error + jsstring option)
       sample_store [0xCA, 0xFE]
       [Response 404, GunzipData [0x7B], ReqError socket_error, GunzipEnd]))"
  using get_404_resolves_null [of "\<lambda>t. Inl syntax_error :: node_error + jsstring option"
      sample_store "[0xCA, 0xFE]" "[GunzipData [0x7B], ReqError socket_error, GunzipEnd]"]
  by simp

text \<open>
  Claim C3: when the response to \<open>get(k)\<close> has a status code other than 200 and 404,
  the callback calls \<open>res.resume()\<close> and rejects the promise with an \<open>HttpError\<close> whose
  message is \<open>HTTP error: \<close> followed by the code in decimal and whose status code is
  the code of the response.
\<close>

theorem get_other_status_rejects_with_HttpError:
  assumes "code \<noteq> 200" and "code \<noteq> 404"
  shows "g_promise (snd (get JSON_parse this key (Response code # evs))) =
           Rejected (HttpError (str ''HTTP error: '' @ number_toString code) code)
         \<and> g_resumed (snd (get JSON_parse this key (Response code # evs)))
         \<and> (\<exists>e. g_promise (snd (get JSON_parse this key (Response code # evs))) = Rejected e
                \<and> is_HttpError e \<and> statusCode e = Some code
                \<and> message e = str ''HTTP error: '' @ number_toString code)"
proof -
  let ?st = "get_step JSON_parse get_init (Response code)"
  let ?e = "HttpError (str ''HTTP error: '' @ number_toString code) code"
  from assms have "g_promise ?st = Rejected ?e" and r: "g_resumed ?st"
    by (simp_all add: get_init_def)
  then have "g_promise (foldl (get_step JSON_parse) ?st evs) = Rejected ?e"
    by (simp add: get_steps_settled)
  moreover have "g_resumed (foldl (get_step JSON_parse) ?st evs)"
    using r by (rule get_steps_resumed)
  ultimately show ?thesis
    by (simp add: get_def get_run_def)
qed

theorem get_other_status_rejects_with_HttpError_witness:
  "(500 :: nat) \<noteq> 200 \<and> (500 :: nat) \<noteq> 404
   \<and> g_promise (snd (get (\<lambda>t. Inr (Some t)) sample_store [0xCA, 0xFE]
        [Response 500, GunzipData [0x7B], GunzipEnd]))
      = Rejected (HttpError (str ''HTTP error: 500'') 500)
   \<and> g_resumed (snd (get (\<lambda>t. Inr (Some t) :: node_error + jsstring option)
        sample_store [0xCA, 0xFE] [Response 500, GunzipData [0x7B], GunzipEnd]))"
proof -
  have d: "str ''HTTP error: '' @ number_toString 500 = str ''HTTP error: 500''"
    by (simp add: number_toString.simps digit_char_def str_def)
  have h: "(500 :: nat) \<noteq> 200" "(500 :: nat) \<noteq> 404"
    by simp_all
  from get_other_status_rejects_with_HttpError [OF h,
      of "\<lambda>t. Inr (Some t) :: node_error + jsstring option" sample_store "[0xCA, 0xFE]"
        "[GunzipData [0x7B], GunzipEnd]"]
  show ?thesis
    unfolding d by simp
qed

text \<open>
  Claim C5: in the 200 branch of \<open>get(k)\<close>, an error of the gunzip stream (also one of
  the response, which the code forwards to the gunzip stream), or a failure of
  \<open>JSON.parse\<close> on the text accumulated when the stream ends, rejects the promise with
  that very error object, which is not an \<open>HttpError\<close>.
\<close>

theorem get_200_decode_failure_rejects_with_that_error:
  "g_promise (snd (get JSON_parse this key
       (Response 200 # map GunzipData chunks @ GunzipError err # evs))) = Rejected (NodeError err)
   \<and> g_promise (snd (get JSON_parse this key
       (Response 200 # map GunzipData chunks @ ResError err # evs))) = Rejected (NodeError err)
   \<and> (JSON_parse (concat (map toString chunks)) = Inl err \<longrightarrow>
        g_promise (snd (get JSON_parse this key
          (Response 200 # map GunzipData chunks @ GunzipEnd # evs))) = Rejected (NodeError err))
   \<and> \<not> is_HttpError (NodeError err)"
proof -
  let ?acc = "get_init\<lparr>g_data := concat (map toString chunks), g_piped := True\<rparr> :: 'a get_state"
  have "g_promise (get_step JSON_parse ?acc (GunzipError err)) = Rejected (NodeError err)"
    by (simp add: get_init_def)
  then have a: "g_promise (get_run JSON_parse
       (Response 200 # map GunzipData chunks @ GunzipError err # evs)) = Rejected (NodeError err)"
    by (rule get_rejects_after_data)
  have "g_promise (get_step JSON_parse ?acc (ResError err)) = Rejected (NodeError err)"
    by (simp add: get_init_def)
  then have b: "g_promise (get_run JSON_parse
       (Response 200 # map GunzipData chunks @ ResError err # evs)) = Rejected (NodeError err)"
    by (rule get_rejects_after_data)
  have c: "g_promise (get_run JSON_parse
          (Response 200 # map GunzipData chunks @ GunzipEnd # evs)) = Rejected (NodeError err)"
    if "JSON_parse (concat (map toString chunks)) = Inl err"
  proof -
    from that have "g_promise (get_step JSON_parse ?acc GunzipEnd) = Rejected (NodeError err)"
      by (simp add: get_init_def)
    then show ?thesis
      by (rule get_rejects_after_data)
  qed
  from a b c show ?thesis
    by (simp add: get_def)
qed

theorem get_200_decode_failure_rejects_with_that_error_witness:
  "g_promise (snd (get (\<lambda>t. if t = [] then Inl syntax_error else Inr (Some t))
       sample_store [0xCA, 0xFE] [Response 200, GunzipEnd])) = Rejected (NodeError syntax_error)
   \<and> g_promise (snd (get (\<lambda>t. if t = [] then Inl syntax_error else Inr (Some t))
       sample_store [0xCA, 0xFE] [Response 200, GunzipData [0x7B], GunzipError socket_error,
         GunzipEnd])) = Rejected (NodeError socket_error)"
proof -
  let ?P = "\<lambda>t :: jsstring. if t = [] then Inl syntax_error
              else (Inr (Some t) :: node_error + jsstring option)"
  have h: "?P (concat (map toString [])) = Inl syntax_error"
    by simp
  from get_200_decode_failure_rejects_with_that_error [of ?P sample_store "[0xCA, 0xFE]" "[]"
      syntax_error "[]"] h
  have "g_promise (snd (get ?P sample_store [0xCA, 0xFE] [Response 200, GunzipEnd])) =
          Rejected (NodeError syntax_error)"
    by simp
  moreover
  from get_200_decode_failure_rejects_with_that_error [of ?P sample_store "[0xCA, 0xFE]"
      "[[0x7B]]" socket_error "[GunzipEnd]"]
  have "g_promise (snd (get ?P sample_store [0xCA, 0xFE]
          [Response 200, GunzipData [0x7B], GunzipError socket_error, GunzipEnd])) =
          Rejected (NodeError socket_error)"
    by simp
  ultimately show ?thesis by simp
qed

subsection \<open>The response of a write\<close>

text \<open>
  Claim C4, as stated: \<open>set(k, v)\<close> does not branch on the status code, resolves once
  the response completes, and fails only on an error of the response. The last part does
  not hold. The promise of \<open>set\<close> is also rejected, with no response at all, when
  \<open>JSON.stringify(value)\<close> throws in the executor (here on a cyclic object); and an
  error of the request, for which \<open>set\<close> registers no listener, is thrown by the runtime
  and leaves the promise pending.
\<close>

theorem set_fails_without_response_error_counterexample:
  "p_promise (snd (snd (set_op sample_request (\<lambda>opts t. map ucast t)
      (\<lambda>v :: unit. Inl cyclic_error) sample_store [0xCA, 0xFE] () [])))
     = Rejected (NodeError cyclic_error)
   \<and> p_promise (snd (snd (set_op sample_request (\<lambda>opts t. map ucast t)
      (\<lambda>v. Inr (Some v)) sample_store [0xCA, 0xFE] (str ''true'') [SReqError socket_error])))
     = Pending
   \<and> p_uncaught (snd (snd (set_op sample_request (\<lambda>opts t. map ucast t)
      (\<lambda>v. Inr (Some v)) sample_store [0xCA, 0xFE] (str ''true'') [SReqError socket_error])))
     = [socket_error]"
  by (simp add: set_op_def set_options_def set_run_def set_init_def)

text \<open>
  Claim C4, amended: \<open>set(k, v)\<close> does not look at the status code of the response: what
  it does is the same for every status code. When \<open>request\<close> and \<open>JSON.stringify\<close>
  return and the request emits no error, the promise is resolved once the response ends
  without having emitted an error, whatever the status; nothing is thrown outside the
  promise, and the promise is rejected only with an error that the response emitted.
  When \<open>request\<close> or \<open>JSON.stringify\<close> throws, the promise is rejected with what was
  thrown, whatever is delivered afterwards.
\<close>

theorem set_resolves_whatever_the_status:
  "set_op request gzip JSON_stringify this key v (evs0 @ SResponse code # evs) =
     set_op request gzip JSON_stringify this key v (evs0 @ SResponse code' # evs)
   \<and> (request (set_options this key) = None \<and> JSON_stringify v = Inr s
        \<and> (\<forall>err. SReqError err \<notin> set evs) \<and> (\<forall>err. SResError err \<notin> set evs)
        \<and> SResEnd \<notin> set evs \<longrightarrow>
        p_promise (snd (snd (set_op request gzip JSON_stringify this key v
          (SResponse code # evs @ SResEnd # evs')))) = Resolved ())
   \<and> (request (set_options this key) = None \<and> JSON_stringify v = Inr s
        \<and> (\<forall>err. SReqError err \<notin> set evs) \<longrightarrow>
        p_uncaught (snd (snd (set_op request gzip JSON_stringify this key v evs))) = []
        \<and> (p_promise (snd (snd (set_op request gzip JSON_stringify this key v evs)))
              = Rejected e \<longrightarrow>
            (\<exists>err. e = NodeError err \<and> SResError err \<in> set evs)))
   \<and> (request (set_options this key) = Some err \<longrightarrow>
        p_promise (snd (snd (set_op request gzip JSON_stringify this key v evs)))
          = Rejected (NodeError err))
   \<and> (request (set_options this key) = None \<and> JSON_stringify v = Inl err \<longrightarrow>
        p_promise (snd (snd (set_op request gzip JSON_stringify this key v evs)))
          = Rejected (NodeError err))"
proof (intro conjI impI)
  show "set_op request gzip JSON_stringify this key v (evs0 @ SResponse code # evs) =
     set_op request gzip JSON_stringify this key v (evs0 @ SResponse code' # evs)"
    unfolding set_op_def set_run_def
    by (simp only: set_steps_status_blind [of _ evs0 code evs code'])
next
  assume q: "request (set_options this key) = None \<and> JSON_stringify v = Inr s
        \<and> (\<forall>err. SReqError err \<notin> set evs) \<and> (\<forall>err. SResError err \<notin> set evs)
        \<and> SResEnd \<notin> set evs"
  define st where "st = set_step set_init (SResponse code)"
  have l: "p_listening st" and p: "p_promise st = Pending"
    by (simp_all add: st_def set_init_def)
  from q have "p_promise (foldl set_step st evs) = Pending"
    and "p_listening (foldl set_step st evs)"
    using set_steps_quiet [of evs st] l p by simp_all
  then have "p_promise (set_step (foldl set_step st evs) SResEnd) = Resolved ()"
    by simp
  then have "p_promise (foldl set_step (set_step (foldl set_step st evs) SResEnd) evs') =
               Resolved ()"
    by (simp add: set_steps_settled)
  then have "p_promise (set_run (SResponse code # evs @ SResEnd # evs')) = Resolved ()"
    by (simp add: set_run_def st_def)
  with q show "p_promise (snd (snd (set_op request gzip JSON_stringify this key v
          (SResponse code # evs @ SResEnd # evs')))) = Resolved ()"
    by (simp add: set_op_returns)
next
  assume q: "request (set_options this key) = None \<and> JSON_stringify v = Inr s
        \<and> (\<forall>err. SReqError err \<notin> set evs)"
  then have "p_uncaught (foldl set_step set_init evs) = p_uncaught set_init"
    by (intro set_steps_uncaught) simp
  with q show "p_uncaught (snd (snd (set_op request gzip JSON_stringify this key v evs))) = []"
    by (simp add: set_op_returns set_run_def set_init_def)
next
  assume q: "request (set_options this key) = None \<and> JSON_stringify v = Inr s
        \<and> (\<forall>err. SReqError err \<notin> set evs)"
    and "p_promise (snd (snd (set_op request gzip JSON_stringify this key v evs))) = Rejected e"
  then have "p_promise (foldl set_step set_init evs) = Rejected e"
    by (simp add: set_op_returns set_run_def)
  then have "p_promise set_init = Rejected e
      \<or> (\<exists>err. e = NodeError err \<and> SResError err \<in> set evs)"
    by (rule set_steps_rejected)
  then show "\<exists>err. e = NodeError err \<and> SResError err \<in> set evs"
    by (simp add: set_init_def)
next
  assume "request (set_options this key) = Some err"
  then show "p_promise (snd (snd (set_op request gzip JSON_stringify this key v evs)))
          = Rejected (NodeError err)"
    by (simp add: set_op_def set_init_def)
next
  assume "request (set_options this key) = None \<and> JSON_stringify v = Inl err"
  then show "p_promise (snd (snd (set_op request gzip JSON_stringify this key v evs)))
          = Rejected (NodeError err)"
    by (simp add: set_op_def set_init_def set_steps_settled)
qed

theorem set_resolves_whatever_the_status_witness:
  "set_op sample_request (\<lambda>opts t. map ucast t) (\<lambda>v. Inr (Some v)) sample_store [0xCA, 0xFE]
      (str ''true'') [SResponse 500, SResData [0x4F, 0x4B], SResEnd]
     = set_op sample_request (\<lambda>opts t. map ucast t) (\<lambda>v. Inr (Some v)) sample_store
         [0xCA, 0xFE] (str ''true'') [SResponse 200, SResData [0x4F, 0x4B], SResEnd]
   \<and> p_promise (snd (snd (set_op sample_request (\<lambda>opts t. map ucast t) (\<lambda>v. Inr (Some v))
        sample_store [0xCA, 0xFE] (str ''true'')
        [SResponse 500, SResData [0x4F, 0x4B], SResEnd]))) = Resolved ()
   \<and> p_promise (snd (snd (set_op sample_request (\<lambda>opts t. map ucast t) (\<lambda>v. Inr (Some v))
        sample_store [0xCA, 0xFE] (str ''true'')
        [SResponse 200, SResError socket_error, SResEnd]))) = Rejected (NodeError socket_error)
   \<and> p_uncaught (snd (snd (set_op sample_request (\<lambda>opts t. map ucast t) (\<lambda>v. Inr (Some v))
        sample_store [0xCA, 0xFE] (str ''true'')
        [SResponse 200, SResError socket_error, SResEnd]))) = []
   \<and> SResError socket_error \<in> set [SResponse 200, SResError socket_error, SResEnd]
   \<and> p_promise (snd (snd (set_op sample_request (\<lambda>opts t. map ucast t) (\<lambda>v. Inr (Some v))
        (sample_store\<lparr>s_timeout := - 1\<rparr>) [0xCA, 0xFE] (str ''true'') [])))
       = Rejected (NodeError range_error)
   \<and> p_promise (snd (snd (set_op sample_request (\<lambda>opts t. map ucast t)
        (\<lambda>v :: unit. Inl cyclic_error) sample_store [0xCA, 0xFE] ()
        [SResponse 200, SResEnd]))) = Rejected (NodeError cyclic_error)"
proof -
  let ?gz = "\<lambda>(opts :: zlib_options) (t :: jsstring). map ucast t :: buffer"
  let ?js = "\<lambda>v :: jsstring. Inr (Some v) :: node_error + jsstring option"
  let ?cy = "\<lambda>v :: unit. Inl cyclic_error :: node_error + jsstring option"
  let ?bad = "sample_store\<lparr>s_timeout := - 1\<rparr>"
  let ?key = "[0xCA, 0xFE] :: buffer"
  have ok: "sample_request (set_options sample_store ?key) = None"
    and no: "sample_request (set_options ?bad ?key) = Some range_error"
    by (simp_all add: set_options_def)
  have js: "?js (str ''true'') = Inr (Some (str ''true''))" and cy: "?cy () = Inl cyclic_error"
    by simp_all
  have quiet: "(\<forall>err. SReqError err \<notin> set [SResData [0x4F, 0x4B]])
       \<and> (\<forall>err. SResError err \<notin> set [SResData [0x4F, 0x4B]])
       \<and> SResEnd \<notin> set [SResData [0x4F, 0x4B]]"
    and noreq: "\<forall>err. SReqError err \<notin> set [SResponse 200, SResError socket_error, SResEnd]"
    by simp_all
  have r: "p_promise (snd (snd (set_op sample_request ?gz ?js sample_store ?key (str ''true'')
             [SResponse 200, SResError socket_error, SResEnd]))) = Rejected (NodeError socket_error)"
    by (simp add: set_op_def set_options_def set_run_def set_init_def)
  note a = set_resolves_whatever_the_status [of sample_request ?gz ?js sample_store ?key
      "str ''true''" "[]" 500 "[SResData [0x4F, 0x4B]]" 200 "Some (str ''true'')" "[]"
      "NodeError socket_error" range_error]
  have 1: "set_op sample_request ?gz ?js sample_store ?key (str ''true'')
             [SResponse 500, SResData [0x4F, 0x4B], SResEnd]
           = set_op sample_request ?gz ?js sample_store ?key (str ''true'')
             [SResponse 200, SResData [0x4F, 0x4B], SResEnd]"
    using set_resolves_whatever_the_status [of sample_request ?gz ?js sample_store ?key
      "str ''true''" "[]" 500 "[SResData [0x4F, 0x4B], SResEnd]" 200]
    by simp
  have 2: "p_promise (snd (snd (set_op sample_request ?gz ?js sample_store ?key (str ''true'')
             [SResponse 500, SResData [0x4F, 0x4B], SResEnd]))) = Resolved ()"
    using a ok js quiet by simp
  note b = set_resolves_whatever_the_status [of sample_request ?gz ?js sample_store ?key
      "str ''true''" "[]" 200 "[SResponse 200, SResError socket_error, SResEnd]" 200
      "Some (str ''true'')" "[]" "NodeError socket_error" range_error]
  have 3: "p_uncaught (snd (snd (set_op sample_request ?gz ?js sample_store ?key (str ''true'')
             [SResponse 200, SResError socket_error, SResEnd]))) = []"
    and 4: "SResError socket_error \<in> set [SResponse 200, SResError socket_error, SResEnd]"
    using b ok js noreq r by simp_all
  have 5: "p_promise (snd (snd (set_op sample_request ?gz ?js ?bad ?key (str ''true'') [])))
             = Rejected (NodeError range_error)"
    using set_resolves_whatever_the_status [of sample_request ?gz ?js ?bad ?key
      "str ''true''" "[]" 200 "[]" 200 "Some (str ''true'')" "[]" "NodeError range_error"
      range_error] no
    by simp
  have 6: "p_promise (snd (snd (set_op sample_request ?gz ?cy sample_store ?key ()
             [SResponse 200, SResEnd]))) = Rejected (NodeError cyclic_error)"
    using set_resolves_whatever_the_status [of sample_request ?gz ?cy sample_store ?key
      "()" "[]" 200 "[SResponse 200, SResEnd]" 200 "None" "[]" "NodeError cyclic_error"
      cyclic_error] ok cy
    by simp
  from 1 2 r 3 4 5 6 show ?thesis
    by simp
qed

subsection \<open>The body of a write\<close>

text \<open>
  Claim C8: the body that \<open>set(k, v)\<close> sends is the output of gzip, at zlib's highest
  compression level, on the JSON text of \<open>v\<close>, with the text \<open>null\<close> in place of a
  serialization that is \<open>undefined\<close> or empty. (No body is sent when \<open>request\<close> or
  \<open>JSON.stringify\<close> throws.)
\<close>

theorem set_body_is_gzip_of_json:
  "fst (snd (set_op request gzip JSON_stringify this key v evs)) =
     (case request (set_options this key) of
        Some err \<Rightarrow> None
      | None \<Rightarrow>
          (case JSON_stringify v of
             Inl err \<Rightarrow> None
           | Inr s \<Rightarrow>
               Some (gzip \<lparr>level = Z_BEST_COMPRESSION\<rparr>
                 (case s of
                    None \<Rightarrow> str ''null''
                  | Some t \<Rightarrow> if t = [] then str ''null'' else t))))"
  by (simp add: set_op_def set_body_def serialize_def ZLIB_OPTIONS_def Z_BEST_COMPRESSION_def
      split: option.splits sum.splits)

theorem set_body_is_gzip_of_json_witness:
  "fst (snd (set_op sample_request (\<lambda>opts t. of_nat (level opts) # map ucast t)
      (\<lambda>v. Inr (if v then Some (str ''true'') else None))
      sample_store [0xCA, 0xFE] False [])) = Some [9, 0x6E, 0x75, 0x6C, 0x6C]
   \<and> fst (snd (set_op sample_request (\<lambda>opts t. of_nat (level opts) # map ucast t)
      (\<lambda>v. Inr (if v then Some (str ''true'') else None))
      sample_store [0xCA, 0xFE] True [])) = Some [9, 0x74, 0x72, 0x75, 0x65]"
  using set_body_is_gzip_of_json [of sample_request
      "\<lambda>opts t. of_nat (level opts) # map ucast t"
      "\<lambda>v. Inr (if v then Some (str ''true'') else None)" sample_store "[0xCA, 0xFE]" False "[]"]
    set_body_is_gzip_of_json [of sample_request
      "\<lambda>opts t. of_nat (level opts) # map ucast t"
      "\<lambda>v. Inr (if v then Some (str ''true'') else None)" sample_store "[0xCA, 0xFE]" True "[]"]
  by (simp add: Z_BEST_COMPRESSION_def str_def set_options_def)

subsection \<open>The request path\<close>

text \<open>
  Claim C9: \<open>get\<close> and \<open>set\<close> both send the request to the path made of the store's
  base path, a slash and the key in hexadecimal: two digits per byte, high nibble first,
  drawn from \<open>0123456789abcdef\<close>. The path is a function of the store and the key alone,
  the same in both operations, whatever the value, the parser and the events.
\<close>

theorem path_is_base_slash_hex_key:
  "req_path (fst (get JSON_parse this key evs)) = s_path this @ str ''/'' @ toString_hex key
   \<and> req_path (fst (set_op request gzip JSON_stringify this key v evs')) =
       req_path (fst (get JSON_parse this key evs))
   \<and> toString_hex key = concat (map (\<lambda>b. [str ''0123456789abcdef'' ! (unat b div 16),
                                              str ''0123456789abcdef'' ! (unat b mod 16)]) key)
   \<and> set (toString_hex key) \<subseteq> set (str ''0123456789abcdef'')
   \<and> length (toString_hex key) = 2 * length key"
proof -
  have d: "unat b div 16 mod 16 = unat b div 16" for b :: byte
  proof -
    have "unat b < 2 ^ LENGTH(8)" by (rule unsigned_less)
    then show ?thesis by simp
  qed
  have "hex_byte = (\<lambda>b. [str ''0123456789abcdef'' ! (unat b div 16),
                          str ''0123456789abcdef'' ! (unat b mod 16)])"
    by (rule ext) (simp add: hex_byte_def hex_digit_def hex_digits_def d)
  then have "toString_hex key = concat (map (\<lambda>b. [str ''0123456789abcdef'' ! (unat b div 16),
                                              str ''0123456789abcdef'' ! (unat b mod 16)]) key)"
    by (simp add: toString_hex_def)
  then show ?thesis
    using set_toString_hex [of key] length_toString_hex [of key]
    by (simp add: get_def get_options_def set_op_options set_options_def hex_digits_def)
qed

theorem path_is_base_slash_hex_key_witness:
  "req_path (fst (get (\<lambda>t. Inr (Some t)) sample_store [0x00, 0xAB, 0xFF, 0x1C] [])) =
     str ''/cache/00abff1c''
   \<and> req_path (fst (set_op sample_request (\<lambda>opts t. map ucast t) (\<lambda>v. Inr (Some v)) sample_store
        [0x00, 0xAB, 0xFF, 0x1C] (str ''true'') [SResponse 200])) = str ''/cache/00abff1c''"
proof -
  have h: "toString_hex [0x00, 0xAB, 0xFF, 0x1C] = str ''00abff1c''"
    by (simp add: toString_hex_def hex_byte_def hex_digit_def hex_digits_def str_def)
  from path_is_base_slash_hex_key [of "\<lambda>t. Inr (Some t) :: node_error + jsstring option"
      sample_store "[0x00, 0xAB, 0xFF, 0x1C]" "[]" sample_request "\<lambda>opts t. map ucast t" "\<lambda>v. Inr (Some v)"
      "str ''true''" "[SResponse 200]"]
  show ?thesis
    unfolding h by (simp add: str_def)
qed

subsection \<open>The constructor\<close>

text \<open>
  Claim C6: for an endpoint that the constructor accepts, the store uses the plain HTTP
  module exactly when the protocol of the parsed URL is the string \<open>http:\<close>; with any
  other protocol, or none, it uses the HTTPS module. Both agents are created from the
  module selected.
\<close>

theorem transport_is_http_iff_protocol_is_http:
  assumes "HttpStore_new url_parse string_to_number options = Inr this"
  shows "(s_module this = Http \<longleftrightarrow>
            uri_protocol (url_parse (opt_endpoint options)) = Some (str ''http:''))
         \<and> (s_module this = Https \<longleftrightarrow>
            uri_protocol (url_parse (opt_endpoint options)) \<noteq> Some (str ''http:''))
         \<and> s_getAgent this = Agent (s_module this)
              \<lparr>cfg_family = opt_family options, keepAlive = True,
               keepAliveMsecs = s_timeout this, maxSockets = 64, maxFreeSockets = 64\<rparr>
         \<and> s_setAgent this = s_getAgent this"
proof (cases "falsy (uri_hostname (url_parse (opt_endpoint options)))
              \<or> falsy (uri_pathname (url_parse (opt_endpoint options)))")
  case True
  with assms show ?thesis
    by (simp add: HttpStore_new_def Let_def)
next
  case False
  with assms show ?thesis
    by (auto simp: HttpStore_new_def Let_def split: if_splits)
qed

theorem transport_is_http_iff_protocol_is_http_witness:
  "HttpStore_new (\<lambda>u. uri_http) (\<lambda>s. 8080) (sample_options (str ''http://localhost:8080/cache''))
     = Inr sample_store
   \<and> s_module sample_store = Http
   \<and> uri_protocol uri_http = Some (str ''http:'')
   \<and> (\<exists>this. HttpStore_new (\<lambda>u. uri_no_port) (\<lambda>s. 0)
          (sample_options (str ''https://cache.example/v1'')) = Inr this
        \<and> s_module this = Https)
   \<and> (\<exists>this. HttpStore_new (\<lambda>u. uri_no_port\<lparr>uri_protocol := Some (str ''ftp:'')\<rparr>) (\<lambda>s. 0)
          (sample_options (str ''ftp://cache.example/v1'')) = Inr this
        \<and> s_module this = Https)"
proof -
  have a: "HttpStore_new (\<lambda>u. uri_http) (\<lambda>s. 8080)
             (sample_options (str ''http://localhost:8080/cache'')) = Inr sample_store"
    by (simp add: HttpStore_new_def Let_def str_def)
  obtain s1 where b: "HttpStore_new (\<lambda>u. uri_no_port) (\<lambda>s. 0)
             (sample_options (str ''https://cache.example/v1'')) = Inr s1"
    by (simp add: HttpStore_new_def Let_def str_def)
  obtain s2 where c: "HttpStore_new (\<lambda>u. uri_no_port\<lparr>uri_protocol := Some (str ''ftp:'')\<rparr>)
             (\<lambda>s. 0) (sample_options (str ''ftp://cache.example/v1'')) = Inr s2"
    by (simp add: HttpStore_new_def Let_def str_def)
  have "s_module s1 = Https"
    using transport_is_http_iff_protocol_is_http [OF b] by (simp add: str_def)
  moreover have "s_module s2 = Https"
    using transport_is_http_iff_protocol_is_http [OF c] by (simp add: str_def)
  moreover have "s_module sample_store = Http"
    using transport_is_http_iff_protocol_is_http [OF a] by simp
  ultimately show ?thesis
    using a b c by simp
qed

text \<open>
  Claim C7: the constructor throws (a \<open>TypeError\<close> naming the endpoint) when the parsed
  URL has no host name or no path, that is, when either is \<open>null\<close> or empty; when both
  are there it returns a store with that host and that path.
\<close>

theorem construction_throws_iff_host_or_path_is_missing:
  "(falsy (uri_hostname (url_parse (opt_endpoint options)))
      \<or> falsy (uri_pathname (url_parse (opt_endpoint options))) \<longrightarrow>
    HttpStore_new url_parse string_to_number options =
      Inl (TypeError (str ''Invalid endpoint: '' @ opt_endpoint options)))
   \<and> (\<not> falsy (uri_hostname (url_parse (opt_endpoint options)))
      \<and> \<not> falsy (uri_pathname (url_parse (opt_endpoint options))) \<longrightarrow>
      (\<exists>this. HttpStore_new url_parse string_to_number options = Inr this
         \<and> Some (s_host this) = uri_hostname (url_parse (opt_endpoint options))
         \<and> Some (s_path this) = uri_pathname (url_parse (opt_endpoint options))))"
proof (intro conjI impI)
  assume "falsy (uri_hostname (url_parse (opt_endpoint options)))
      \<or> falsy (uri_pathname (url_parse (opt_endpoint options)))"
  then show "HttpStore_new url_parse string_to_number options =
      Inl (TypeError (str ''Invalid endpoint: '' @ opt_endpoint options))"
    by (simp add: HttpStore_new_def Let_def)
next
  assume ok: "\<not> falsy (uri_hostname (url_parse (opt_endpoint options)))
      \<and> \<not> falsy (uri_pathname (url_parse (opt_endpoint options)))"
  then obtain h p where "uri_hostname (url_parse (opt_endpoint options)) = Some h"
    and "uri_pathname (url_parse (opt_endpoint options)) = Some p"
    by (cases "uri_hostname (url_parse (opt_endpoint options))";
        cases "uri_pathname (url_parse (opt_endpoint options))") simp_all
  with ok show "\<exists>this. HttpStore_new url_parse string_to_number options = Inr this
         \<and> Some (s_host this) = uri_hostname (url_parse (opt_endpoint options))
         \<and> Some (s_path this) = uri_pathname (url_parse (opt_endpoint options))"
    by (simp add: HttpStore_new_def Let_def)
qed

theorem construction_throws_iff_host_or_path_is_missing_witness:
  "falsy (uri_hostname uri_no_host)
   \<and> HttpStore_new (\<lambda>u. uri_no_host) (\<lambda>s. 0) (sample_options (str ''localhost/cache'')) =
       Inl (TypeError (str ''Invalid endpoint: localhost/cache''))
   \<and> \<not> falsy (uri_hostname uri_http) \<and> \<not> falsy (uri_pathname uri_http)
   \<and> (\<exists>this. HttpStore_new (\<lambda>u. uri_http) (\<lambda>s. 8080)
          (sample_options (str ''http://localhost:8080/cache'')) = Inr this
        \<and> s_host this = str ''localhost'' \<and> s_path this = str ''/cache'')"
proof -
  have f: "falsy (uri_hostname uri_no_host)"
    by simp
  have t: "\<not> falsy (uri_hostname uri_http) \<and> \<not> falsy (uri_pathname uri_http)"
    by (simp add: str_def)
  have "HttpStore_new (\<lambda>u. uri_no_host) (\<lambda>s. 0) (sample_options (str ''localhost/cache'')) =
       Inl (TypeError (str ''Invalid endpoint: localhost/cache''))"
    using construction_throws_iff_host_or_path_is_missing [of "\<lambda>u. uri_no_host"
        "sample_options (str ''localhost/cache'')" "\<lambda>s. 0"] f
    by (simp add: str_def)
  moreover have "\<exists>this. HttpStore_new (\<lambda>u. uri_http) (\<lambda>s. 8080)
          (sample_options (str ''http://localhost:8080/cache'')) = Inr this
        \<and> s_host this = str ''localhost'' \<and> s_path this = str ''/cache''"
    using construction_throws_iff_host_or_path_is_missing [of "\<lambda>u. uri_http"
        "sample_options (str ''http://localhost:8080/cache'')" "\<lambda>s. 8080"] t
    by simp
  ultimately show ?thesis
    using f t by simp
qed

text \<open>
  Claim C10: when the parsed URL has no port (\<open>uri.port\<close> is \<open>null\<close>), the port the
  store keeps is the number 0, the result of \<open>+null\<close>, not 80 or 443; the requests of
  \<open>get\<close> and \<open>set\<close> carry the port the store keeps, so they carry 0.
\<close>

theorem absent_port_is_zero:
  assumes "HttpStore_new url_parse string_to_number options = Inr this"
    and "uri_port (url_parse (opt_endpoint options)) = None"
  shows "s_port this = 0 \<and> s_port this \<noteq> 80 \<and> s_port this \<noteq> 443
         \<and> req_port (fst (get JSON_parse this key evs)) = s_port this
         \<and> req_port (fst (set_op request gzip JSON_stringify this key v evs')) = s_port this
         \<and> req_port (fst (get JSON_parse this key evs)) = 0
         \<and> req_port (fst (set_op request gzip JSON_stringify this key v evs')) = 0"
proof -
  from assms have "s_port this = unary_plus string_to_number None"
    by (auto simp: HttpStore_new_def Let_def split: if_splits)
  then have "s_port this = 0"
    by simp
  then show ?thesis
    by (simp add: get_def get_options_def set_op_options set_options_def)
qed

theorem absent_port_is_zero_witness:
  "\<exists>this. HttpStore_new (\<lambda>u. uri_no_port) (\<lambda>s. 443)
       (sample_options (str ''https://cache.example/v1'')) = Inr this
     \<and> uri_port uri_no_port = None
     \<and> s_module this = Https
     \<and> s_port this = 0
     \<and> req_port (fst (get (\<lambda>t. Inr (Some t) :: node_error + jsstring option) this
          [0xCA, 0xFE] [])) = 0
     \<and> req_port (fst (set_op sample_request (\<lambda>opts t. map ucast t) (\<lambda>v. Inr (Some v)) this [0xCA, 0xFE]
          (str ''true'') [])) = 0"
proof -
  obtain s where a: "HttpStore_new (\<lambda>u. uri_no_port) (\<lambda>s. 443)
       (sample_options (str ''https://cache.example/v1'')) = Inr s"
    and m: "s_module s = Https"
    by (simp add: HttpStore_new_def Let_def str_def)
  have b: "uri_port (uri_no_port) = None"
    by simp
  from absent_port_is_zero [OF a b, of "\<lambda>t. Inr (Some t) :: node_error + jsstring option"
      "[0xCA, 0xFE]" "[]" sample_request "\<lambda>opts t. map ucast t" "\<lambda>v. Inr (Some v)" "str ''true''" "[]"] a m
  show ?thesis
    by simp
qed

end
